theory Spec2Isabelle
  imports Main "HOL-Library.Word"
begin

unbundle bit_operations_syntax

section \<open>Data model of the txgbe virtual-function control plane\<close>

text \<open>
  The embedding follows \<^verbatim>\<open>drivers/net/txgbe/txgbe_ethdev_vf.c\<close>. Fixed-width C integers
  are words; \<^verbatim>\<open>int\<close> and \<^verbatim>\<open>s32\<close> result codes are 32-bit words read in two's complement
  (so \<^verbatim>\<open>-1\<close> is \<open>- 1\<close> and \<^verbatim>\<open>-EIO\<close> is \<open>- EIO\<close>).
\<close>

type_synonym u8 = "8 word"
type_synonym u16 = "16 word"
type_synonym u32 = "32 word"
type_synonym u64 = "64 word"
type_synonym s32 = "32 word"

text \<open>\<^verbatim>\<open>struct rte_ether_addr\<close>: six address bytes, \<^verbatim>\<open>addr_bytes[0]\<close> to \<^verbatim>\<open>addr_bytes[5]\<close>.\<close>

datatype rte_ether_addr =
  EtherAddr (addr_byte0: u8) (addr_byte1: u8) (addr_byte2: u8)
            (addr_byte3: u8) (addr_byte4: u8) (addr_byte5: u8)

text \<open>\<^verbatim>\<open>enum txgbe_pfvf_api_rev\<close>, the mailbox protocol levels.\<close>

datatype txgbe_pfvf_api_rev =
  txgbe_mbox_api_null | txgbe_mbox_api_10 | txgbe_mbox_api_11 | txgbe_mbox_api_12
| txgbe_mbox_api_13 | txgbe_mbox_api_20 | txgbe_mbox_api_unknown

datatype txgbe_reg = TXGBE_VFIMS | TXGBE_VFIMC

datatype rte_proc_type = RTE_PROC_PRIMARY | RTE_PROC_SECONDARY

datatype fault = NullDeref | OutOfBounds

datatype dev_ops_table = no_dev_ops | txgbevf_eth_dev_ops

text \<open>
  Every call that leaves this file (hardware-abstraction function pointers, mailbox helpers
  of the base driver, register access, the allocator, the random source) is recorded, in
  program order, as one event of the device's trace.
\<close>

datatype event =
  InitSharedCode
| MbxInitParams
| ResetHw
| StartHw
| NegotiateApiVersion txgbe_pfvf_api_rev
| GetQueues
| SetUcAddrVf u32 "rte_ether_addr option"
| SetRarVf u32 rte_ether_addr u32 u32
| SetRar u32 rte_ether_addr u32 u32
| Wr32 txgbe_reg u32
| Flush
| Zmalloc u32
| Free
| Rand

datatype log_msg =
  LogSharedCodeInitFailed s32
| LogVfInitFailure s32
| LogAllocFailed u32
| LogMacNotAssigned
| LogRandomMac rte_ether_addr
| LogPortInfo
| LogNoTxQueues
| LogAddMacFailed rte_ether_addr s32
| LogReAddMacFailed rte_ether_addr s32

type_synonym txgbe_tx_queue = nat
type_synonym fn_ptr = nat

record rte_pci_device =
  id_vendor_id :: u16
  id_device_id :: u16
  id_subsystem_vendor_id :: u16
  id_subsystem_device_id :: u16
  mem_resource0_addr :: u64
  max_vfs :: u16

text \<open>\<^verbatim>\<open>struct txgbe_hw\<close>, with the fields of \<^verbatim>\<open>hw->mac\<close> prefixed \<open>mac_\<close>.\<close>

record txgbe_hw =
  device_id :: u16
  vendor_id :: u16
  subsystem_device_id :: u16
  subsystem_vendor_id :: u16
  hw_addr :: u64
  api_version :: txgbe_pfvf_api_rev
  mac_perm_addr :: rte_ether_addr
  mac_num_rar_entries :: u32
  mac_max_rx_queues :: u32
  mac_max_tx_queues :: u32

text \<open>
  \<^verbatim>\<open>struct rte_eth_dev_data\<close>: a pointer is \<open>None\<close> when it is \<^verbatim>\<open>NULL\<close>, and an
  array behind a pointer is the list of its elements.
\<close>

record rte_eth_dev_data =
  mac_addrs :: "rte_ether_addr list option"
  nb_tx_queues :: u16
  tx_queues :: "txgbe_tx_queue option list option"
  port_id :: u16

record rte_eth_dev =
  dev_ops :: dev_ops_table
  pci_dev :: rte_pci_device
  hw :: txgbe_hw
  intr_mask_misc :: u32
  data :: rte_eth_dev_data
  pci_info_copied :: bool
  tx_pkt_burst :: fn_ptr
  rx_pkt_burst :: fn_ptr
  trace :: "event list"
  logs :: "log_msg list"

text \<open>
  Constants of headers that are not part of this file (\<^verbatim>\<open>errno.h\<close>, \<^verbatim>\<open>rte_ether.h\<close>,
  \<^verbatim>\<open>base/txgbe.h\<close>, \<^verbatim>\<open>txgbe_rxtx.h\<close>) are parameters.
\<close>

record txgbe_defs =
  EIO :: s32
  EAGAIN :: s32
  ENOMEM :: s32
  TXGBE_ERR_INVALID_MAC_ADDR :: s32
  RTE_ETHER_LOCAL_ADMIN_ADDR :: u8
  TXGBE_VFIMS_MASK :: u32
  TXGBE_VFIMC_MASK :: u32
  TXGBE_FRAME_SIZE_MAX :: u32
  TXGBE_VMDQ_NUM_UC_MAC :: u32
  ETH_64_POOLS :: u16
  TXGBE_HKEY_MAX_INDEX :: u64
  ETH_RSS_RETA_SIZE_128 :: u16
  TXGBE_RSS_OFFLOAD_ALL :: u64
  TXGBE_DEFAULT_RX_PTHRESH :: u8
  TXGBE_DEFAULT_RX_HTHRESH :: u8
  TXGBE_DEFAULT_RX_WTHRESH :: u8
  TXGBE_DEFAULT_RX_FREE_THRESH :: u16
  TXGBE_DEFAULT_TX_PTHRESH :: u8
  TXGBE_DEFAULT_TX_HTHRESH :: u8
  TXGBE_DEFAULT_TX_WTHRESH :: u8
  TXGBE_DEFAULT_TX_FREE_THRESH :: u16
  TXGBE_RING_DESC_MAX :: u16
  TXGBE_RING_DESC_MIN :: u16
  TXGBE_RXD_ALIGN :: u16
  TXGBE_TXD_ALIGN :: u16
  TXGBE_TX_MAX_SEG :: u16

text \<open>
  What the collaborators answer. The \<open>k\<close>-th event of the trace (counted from 0) gets the
  result code \<open>ret_code k\<close>; the other outputs of a call (the address the PF hands out at
  a reset, whether an allocation succeeds, the random number) are indexed the same way.
  \<open>process_type\<close> is \<^verbatim>\<open>rte_eal_process_type()\<close>, \<open>little_endian\<close> the byte order of the host,
  and the last six fields are the helpers of \<^verbatim>\<open>txgbe_rxtx.c\<close> that pick the data-path
  functions and report the offload bits.
\<close>

record env =
  process_type :: rte_proc_type
  ret_code :: "nat \<Rightarrow> s32"
  pf_perm_addr :: "nat \<Rightarrow> rte_ether_addr option"
  zmalloc_ok :: "nat \<Rightarrow> bool"
  rte_rand :: "nat \<Rightarrow> u64"
  little_endian :: bool
  txgbe_set_tx_function :: "rte_eth_dev \<Rightarrow> txgbe_tx_queue option \<Rightarrow> fn_ptr"
  txgbe_set_rx_function :: "rte_eth_dev \<Rightarrow> fn_ptr"
  txgbe_get_rx_queue_offloads :: "rte_eth_dev \<Rightarrow> u64"
  txgbe_get_rx_port_offloads :: "rte_eth_dev \<Rightarrow> u64"
  txgbe_get_tx_queue_offloads :: "rte_eth_dev \<Rightarrow> u64"
  txgbe_get_tx_port_offloads :: "rte_eth_dev \<Rightarrow> u64"

section \<open>Calls to collaborators\<close>

definition ext_event :: "event \<Rightarrow> rte_eth_dev \<Rightarrow> rte_eth_dev" where
  "ext_event ev s = s\<lparr>trace := trace s @ [ev]\<rparr>"

definition ext_call :: "env \<Rightarrow> event \<Rightarrow> rte_eth_dev \<Rightarrow> s32 \<times> rte_eth_dev" where
  "ext_call E ev s = (ret_code E (length (trace s)), ext_event ev s)"

definition log_msg :: "log_msg \<Rightarrow> rte_eth_dev \<Rightarrow> rte_eth_dev" where
  "log_msg m s = s\<lparr>logs := logs s @ [m]\<rparr>"

text \<open>
  Modelled from the spec: \<^verbatim>\<open>txgbevf_negotiate_api_version\<close> (base driver, not in this file).
  It issues one mailbox negotiation request for the given version; on success (result 0)
  that version becomes the active one, and the mailbox state is mutated only then.
\<close>

definition txgbevf_negotiate_api_version ::
  "env \<Rightarrow> txgbe_pfvf_api_rev \<Rightarrow> rte_eth_dev \<Rightarrow> s32 \<times> rte_eth_dev" where
  "txgbevf_negotiate_api_version E api s =
     (case ext_call E (NegotiateApiVersion api) s of
        (rc, s1) \<Rightarrow>
          if rc = 0 then (0, s1\<lparr>hw := (hw s1)\<lparr>api_version := api\<rparr>\<rparr>) else (rc, s1))"

section \<open>API version negotiation\<close>

definition sup_ver :: "txgbe_pfvf_api_rev list" where
  "sup_ver = [txgbe_mbox_api_13, txgbe_mbox_api_12, txgbe_mbox_api_11, txgbe_mbox_api_10]"

text \<open>The \<^verbatim>\<open>for\<close> loop of \<^verbatim>\<open>txgbevf_negotiate_api\<close> over the remaining candidates.\<close>

fun negotiate_loop :: "env \<Rightarrow> txgbe_pfvf_api_rev list \<Rightarrow> rte_eth_dev \<Rightarrow> rte_eth_dev" where
  "negotiate_loop E [] s = s"
| "negotiate_loop E (v # vs) s =
     (case txgbevf_negotiate_api_version E v s of
        (rc, s1) \<Rightarrow> if rc = 0 then s1 else negotiate_loop E vs s1)"

definition txgbevf_negotiate_api :: "env \<Rightarrow> rte_eth_dev \<Rightarrow> rte_eth_dev" where
  "txgbevf_negotiate_api E s = negotiate_loop E sup_ver s"



section \<open>Random permanent address\<close>

definition rte_is_zero_ether_addr :: "rte_ether_addr \<Rightarrow> bool" where
  "rte_is_zero_ether_addr a = (a = EtherAddr 0 0 0 0 0 0)"

text \<open>
  Byte \<open>i\<close> of the object representation of a \<^verbatim>\<open>uint64_t\<close>: the least significant byte comes
  first on a little-endian host and last on a big-endian one. \<^verbatim>\<open>memcpy\<close> of three bytes
  reads bytes 0, 1 and 2 of it.
\<close>

definition u64_mem_byte :: "bool \<Rightarrow> u64 \<Rightarrow> nat \<Rightarrow> u8" where
  "u64_mem_byte le r i = ucast (drop_bit (8 * (if le then i else 7 - i)) r)"

definition random_mac_addr :: "txgbe_defs \<Rightarrow> bool \<Rightarrow> u64 \<Rightarrow> rte_ether_addr" where
  "random_mac_addr D le random =
     EtherAddr (0x00 OR RTE_ETHER_LOCAL_ADMIN_ADDR D) 0x09 0xC0
       (u64_mem_byte le random 0) (u64_mem_byte le random 1) (u64_mem_byte le random 2)"

text \<open>\<^verbatim>\<open>generate_random_mac_addr(perm_addr)\<close>, called on \<^verbatim>\<open>hw->mac.perm_addr\<close>.\<close>

definition generate_random_mac_addr :: "txgbe_defs \<Rightarrow> env \<Rightarrow> rte_eth_dev \<Rightarrow> rte_eth_dev" where
  "generate_random_mac_addr D E s =
     (let random = rte_rand E (length (trace s));
          s1 = ext_event Rand s
      in s1\<lparr>hw := (hw s1)\<lparr>mac_perm_addr := random_mac_addr D (little_endian E) random\<rparr>\<rparr>)"

section \<open>Interrupt mask\<close>

definition wr32 :: "txgbe_reg \<Rightarrow> u32 \<Rightarrow> rte_eth_dev \<Rightarrow> rte_eth_dev" where
  "wr32 reg val s = ext_event (Wr32 reg val) s"

definition txgbe_flush :: "rte_eth_dev \<Rightarrow> rte_eth_dev" where
  "txgbe_flush s = ext_event Flush s"

definition txgbevf_intr_disable :: "txgbe_defs \<Rightarrow> rte_eth_dev \<Rightarrow> rte_eth_dev" where
  "txgbevf_intr_disable D s =
     (let s1 = wr32 TXGBE_VFIMS (TXGBE_VFIMS_MASK D) s;
          s2 = txgbe_flush s1
      in s2\<lparr>intr_mask_misc := TXGBE_VFIMS_MASK D\<rparr>)"

definition txgbevf_intr_enable :: "txgbe_defs \<Rightarrow> rte_eth_dev \<Rightarrow> rte_eth_dev" where
  "txgbevf_intr_enable D s =
     (let s1 = wr32 TXGBE_VFIMC (TXGBE_VFIMC_MASK D) s;
          s2 = txgbe_flush s1
      in s2\<lparr>intr_mask_misc := 0\<rparr>)"

datatype intr_op = Disable | Enable

fun intr_step :: "txgbe_defs \<Rightarrow> rte_eth_dev \<Rightarrow> intr_op \<Rightarrow> rte_eth_dev" where
  "intr_step D s Disable = txgbevf_intr_disable D s"
| "intr_step D s Enable = txgbevf_intr_enable D s"

definition intr_run :: "txgbe_defs \<Rightarrow> intr_op list \<Rightarrow> rte_eth_dev \<Rightarrow> rte_eth_dev" where
  "intr_run D ops s = foldl (intr_step D) s ops"

fun intr_events :: "txgbe_defs \<Rightarrow> intr_op \<Rightarrow> event list" where
  "intr_events D Disable = [Wr32 TXGBE_VFIMS (TXGBE_VFIMS_MASK D), Flush]"
| "intr_events D Enable = [Wr32 TXGBE_VFIMC (TXGBE_VFIMC_MASK D), Flush]"

fun intr_mirror :: "txgbe_defs \<Rightarrow> intr_op \<Rightarrow> u32" where
  "intr_mirror D Disable = TXGBE_VFIMS_MASK D"
| "intr_mirror D Enable = 0"

section \<open>Address table\<close>

text \<open>
  \<^verbatim>\<open>txgbevf_set_uc_addr_vf(hw, index, addr)\<close> of the base driver is one mailbox request:
  index 0 with a \<^verbatim>\<open>NULL\<close> address clears all unicast addresses, index 2 adds one. Its
  result code is the environment's answer.
\<close>

definition txgbevf_set_uc_addr_vf ::
  "env \<Rightarrow> u32 \<Rightarrow> rte_ether_addr option \<Rightarrow> rte_eth_dev \<Rightarrow> s32 \<times> rte_eth_dev" where
  "txgbevf_set_uc_addr_vf E index addr s = ext_call E (SetUcAddrVf index addr) s"

abbreviation clear_all_unicast :: event where
  "clear_all_unicast \<equiv> SetUcAddrVf 0 None"

abbreviation add_unicast :: "rte_ether_addr \<Rightarrow> event" where
  "add_unicast a \<equiv> SetUcAddrVf 2 (Some a)"

definition txgbevf_add_mac_addr ::
  "env \<Rightarrow> rte_eth_dev \<Rightarrow> rte_ether_addr \<Rightarrow> u32 \<Rightarrow> u32 \<Rightarrow> s32 \<times> rte_eth_dev" where
  "txgbevf_add_mac_addr E s mac_addr index pool =
     (if mac_perm_addr (hw s) = mac_addr then (- 1, s)
      else
        (case txgbevf_set_uc_addr_vf E 2 (Some mac_addr) s of
           (err, s1) \<Rightarrow>
             (err, if err \<noteq> 0 then log_msg (LogAddMacFailed mac_addr err) s1 else s1)))"

text \<open>
  Reading \<^verbatim>\<open>dev->data->mac_addrs[i]\<close>: a \<^verbatim>\<open>NULL\<close> table or an index past the allocation is
  undefined behaviour in C and a fault here.
\<close>

definition read_mac_addr :: "rte_eth_dev \<Rightarrow> nat \<Rightarrow> fault + rte_ether_addr" where
  "read_mac_addr s i =
     (case mac_addrs (data s) of
        None \<Rightarrow> Inl NullDeref
      | Some tbl \<Rightarrow> if i < length tbl then Inr (tbl ! i) else Inl OutOfBounds)"

text \<open>
  The replay loop of \<^verbatim>\<open>txgbevf_remove_mac_addr\<close> over the remaining values of \<^verbatim>\<open>i\<close>. The
  counter is below \<^verbatim>\<open>num_rar_entries\<close>, a \<^verbatim>\<open>uint32_t\<close>, so it never wraps and
  \<^verbatim>\<open>i == index\<close> is \<open>i = unat index\<close>.
\<close>

fun remove_loop :: "env \<Rightarrow> u32 \<Rightarrow> nat list \<Rightarrow> rte_eth_dev \<Rightarrow> fault + rte_eth_dev" where
  "remove_loop E index [] s = Inr s"
| "remove_loop E index (i # js) s =
     (if i = unat index then remove_loop E index js s
      else
        (case read_mac_addr s i of
           Inl f \<Rightarrow> Inl f
         | Inr mac_addr \<Rightarrow>
             if rte_is_zero_ether_addr mac_addr then remove_loop E index js s
             else if mac_perm_addr (hw s) = mac_addr then remove_loop E index js s
             else
               (case txgbevf_set_uc_addr_vf E 2 (Some mac_addr) s of
                  (err, s1) \<Rightarrow>
                    remove_loop E index js
                      (if err \<noteq> 0 then log_msg (LogReAddMacFailed mac_addr err) s1 else s1))))"

definition txgbevf_remove_mac_addr :: "env \<Rightarrow> rte_eth_dev \<Rightarrow> u32 \<Rightarrow> fault + rte_eth_dev" where
  "txgbevf_remove_mac_addr E s index =
     (case txgbevf_set_uc_addr_vf E 0 None s of
        (_, s1) \<Rightarrow> remove_loop E index [0 ..< unat (mac_num_rar_entries (hw s1))] s1)"

text \<open>
  Modelled from the spec: \<^verbatim>\<open>hw->mac.set_rar\<close> (a function pointer into the base driver, not
  in this file). It programs the given hardware address slot and changes nothing that the
  driver stores; its result is not looked at.
\<close>

definition mac_set_rar ::
  "env \<Rightarrow> u32 \<Rightarrow> rte_ether_addr \<Rightarrow> u32 \<Rightarrow> u32 \<Rightarrow> rte_eth_dev \<Rightarrow> s32 \<times> rte_eth_dev" where
  "mac_set_rar E index addr vmdq enable_addr s = ext_call E (SetRar index addr vmdq enable_addr) s"

definition txgbevf_set_default_mac_addr ::
  "env \<Rightarrow> rte_eth_dev \<Rightarrow> rte_ether_addr \<Rightarrow> s32 \<times> rte_eth_dev" where
  "txgbevf_set_default_mac_addr E s addr =
     (case mac_set_rar E 0 addr 0 0 s of (_, s1) \<Rightarrow> (0, s1))"

section \<open>Device initialisation\<close>

text \<open>
  \<^verbatim>\<open>rte_eth_copy_pci_info\<close> (ethdev framework) fills fields of the device that nothing in
  this file reads; the model keeps only that it ran.
\<close>

definition rte_eth_copy_pci_info :: "rte_eth_dev \<Rightarrow> rte_eth_dev" where
  "rte_eth_copy_pci_info s = s\<lparr>pci_info_copied := True\<rparr>"

definition txgbe_init_shared_code :: "env \<Rightarrow> rte_eth_dev \<Rightarrow> s32 \<times> rte_eth_dev" where
  "txgbe_init_shared_code E s = ext_call E InitSharedCode s"

definition mbx_init_params :: "rte_eth_dev \<Rightarrow> rte_eth_dev" where
  "mbx_init_params s = ext_event MbxInitParams s"

text \<open>
  Modelled from the spec: \<^verbatim>\<open>hw->mac.reset_hw\<close> (a function pointer into the base driver, not
  in this file). A reset puts the mailbox protocol version back to the baseline v10 and
  stores the permanent address the PF assigned, if it assigned one; otherwise the stored
  address is left as it was. Its result code is the environment's answer.
\<close>

definition mac_reset_hw :: "env \<Rightarrow> rte_eth_dev \<Rightarrow> s32 \<times> rte_eth_dev" where
  "mac_reset_hw E s =
     (case ext_call E ResetHw s of
        (rc, s1) \<Rightarrow>
          (rc, s1\<lparr>hw := (hw s1)\<lparr>api_version := txgbe_mbox_api_10,
                                 mac_perm_addr :=
                                   (case pf_perm_addr E (length (trace s)) of
                                      None \<Rightarrow> mac_perm_addr (hw s1)
                                    | Some a \<Rightarrow> a)\<rparr>\<rparr>))"

definition mac_start_hw :: "env \<Rightarrow> rte_eth_dev \<Rightarrow> s32 \<times> rte_eth_dev" where
  "mac_start_hw E s = ext_call E StartHw s"

text \<open>
  \<^verbatim>\<open>txgbevf_get_queues(hw, &tcs, &tc)\<close>: one mailbox request; init looks neither at its
  result nor at the two counts it writes to locals.
\<close>

definition txgbevf_get_queues :: "env \<Rightarrow> rte_eth_dev \<Rightarrow> s32 \<times> rte_eth_dev" where
  "txgbevf_get_queues E s = ext_call E GetQueues s"

definition txgbe_set_rar_vf ::
  "env \<Rightarrow> u32 \<Rightarrow> rte_ether_addr \<Rightarrow> u32 \<Rightarrow> u32 \<Rightarrow> rte_eth_dev \<Rightarrow> s32 \<times> rte_eth_dev" where
  "txgbe_set_rar_vf E index addr vmdq enable_addr s =
     ext_call E (SetRarVf index addr vmdq enable_addr) s"

text \<open>
  \<^verbatim>\<open>rte_zmalloc\<close> of \<open>nbytes\<close> bytes for an array of 6-byte addresses: \<^verbatim>\<open>NULL\<close>, or
  zeroed storage for \<open>nbytes div 6\<close> entries.
\<close>

definition rte_zmalloc ::
  "env \<Rightarrow> u32 \<Rightarrow> rte_eth_dev \<Rightarrow> rte_ether_addr list option \<times> rte_eth_dev" where
  "rte_zmalloc E nbytes s =
     (if zmalloc_ok E (length (trace s))
      then Some (replicate (unat nbytes div 6) (EtherAddr 0 0 0 0 0 0)) else None,
      ext_event (Zmalloc nbytes) s)"

definition rte_free :: "rte_eth_dev \<Rightarrow> rte_eth_dev" where
  "rte_free s = ext_event Free s"

text \<open>
  The secondary-process branch. \<^verbatim>\<open>nb_tx_queues\<close> is a \<^verbatim>\<open>uint16_t\<close>, promoted to \<^verbatim>\<open>int\<close>
  before the subtraction, so the index is \<open>-1\<close> when the count is 0. The guard of the
  branch is the array pointer, not the count.
\<close>

definition eth_txgbevf_dev_init_secondary ::
  "env \<Rightarrow> rte_eth_dev \<Rightarrow> fault + (s32 \<times> rte_eth_dev)" where
  "eth_txgbevf_dev_init_secondary E s =
     (let nb_tx_queues = nb_tx_queues (data s) in
      case tx_queues (data s) of
        Some qs \<Rightarrow>
          (let idx = uint nb_tx_queues - 1 in
           if idx < 0 \<or> int (length qs) \<le> idx then Inl OutOfBounds
           else
             (let txq = qs ! nat idx;
                  s1 = s\<lparr>tx_pkt_burst := txgbe_set_tx_function E s txq\<rparr>;
                  s2 = s1\<lparr>rx_pkt_burst := txgbe_set_rx_function E s1\<rparr>
              in Inr (0, s2)))
      | None \<Rightarrow>
          (let s1 = log_msg LogNoTxQueues s;
               s2 = s1\<lparr>rx_pkt_burst := txgbe_set_rx_function E s1\<rparr>
           in Inr (0, s2)))"

text \<open>From \<^verbatim>\<open>hw->mac.start_hw\<close> to the end of init.\<close>

definition init_start :: "txgbe_defs \<Rightarrow> env \<Rightarrow> rte_eth_dev \<Rightarrow> s32 \<times> rte_eth_dev" where
  "init_start D E s =
     (case mac_start_hw E s of
        (err, s1) \<Rightarrow>
          if err \<noteq> 0 then (- EIO D, log_msg (LogVfInitFailure err) s1)
          else (0, log_msg LogPortInfo (txgbevf_intr_enable D s1)))"

text \<open>\<^verbatim>\<open>rte_ether_addr_copy(perm_addr, &eth_dev->data->mac_addrs[0])\<close>.\<close>

definition copy_perm_addr :: "rte_eth_dev \<Rightarrow> fault + rte_eth_dev" where
  "copy_perm_addr s =
     (case mac_addrs (data s) of
        None \<Rightarrow> Inl NullDeref
      | Some tbl \<Rightarrow>
          if tbl = [] then Inl OutOfBounds
          else Inr (s\<lparr>data := (data s)\<lparr>mac_addrs := Some (tbl[0 := mac_perm_addr (hw s)])\<rparr>\<rparr>))"

definition init_copy_and_start ::
  "txgbe_defs \<Rightarrow> env \<Rightarrow> rte_eth_dev \<Rightarrow> fault + (s32 \<times> rte_eth_dev)" where
  "init_copy_and_start D E s =
     (case copy_perm_addr s of
        Inl f \<Rightarrow> Inl f
      | Inr s1 \<Rightarrow> Inr (init_start D E s1))"

text \<open>From the test of the permanent address for zero to the end of init.\<close>

definition init_resolve_addr ::
  "txgbe_defs \<Rightarrow> env \<Rightarrow> rte_eth_dev \<Rightarrow> fault + (s32 \<times> rte_eth_dev)" where
  "init_resolve_addr D E s =
     (if rte_is_zero_ether_addr (mac_perm_addr (hw s)) then
        (let s1 = generate_random_mac_addr D E s in
         case txgbe_set_rar_vf E 1 (mac_perm_addr (hw s1)) 0 1 s1 of
           (err, s2) \<Rightarrow>
             if err \<noteq> 0 then
               (let s3 = rte_free s2;
                    s4 = s3\<lparr>data := (data s3)\<lparr>mac_addrs := None\<rparr>\<rparr>
                in Inr (err, s4))
             else
               init_copy_and_start D E
                 (log_msg (LogRandomMac (mac_perm_addr (hw s2))) (log_msg LogMacNotAssigned s2)))
      else init_copy_and_start D E s)"

text \<open>From the negotiation to the end of init.\<close>

definition init_after_reset ::
  "txgbe_defs \<Rightarrow> env \<Rightarrow> rte_eth_dev \<Rightarrow> fault + (s32 \<times> rte_eth_dev)" where
  "init_after_reset D E s =
     (let s1 = txgbevf_negotiate_api E s;
          s2 = snd (txgbevf_get_queues E s1);
          nbytes = 6 * mac_num_rar_entries (hw s2)
      in case rte_zmalloc E nbytes s2 of
           (p, s3) \<Rightarrow>
             (let s4 = s3\<lparr>data := (data s3)\<lparr>mac_addrs := p\<rparr>\<rparr> in
              if mac_addrs (data s4) = None
              then Inr (- ENOMEM D, log_msg (LogAllocFailed nbytes) s4)
              else init_resolve_addr D E s4))"

definition eth_txgbevf_dev_init_primary ::
  "txgbe_defs \<Rightarrow> env \<Rightarrow> rte_eth_dev \<Rightarrow> fault + (s32 \<times> rte_eth_dev)" where
  "eth_txgbevf_dev_init_primary D E s =
     (let s1 = rte_eth_copy_pci_info s;
          s2 = s1\<lparr>hw := (hw s1)\<lparr>device_id := id_device_id (pci_dev s1),
                                 vendor_id := id_vendor_id (pci_dev s1),
                                 subsystem_device_id := id_subsystem_device_id (pci_dev s1),
                                 subsystem_vendor_id := id_subsystem_vendor_id (pci_dev s1),
                                 hw_addr := mem_resource0_addr (pci_dev s1)\<rparr>\<rparr>
      in case txgbe_init_shared_code E s2 of
           (err, s3) \<Rightarrow>
             if err \<noteq> 0 then Inr (- EIO D, log_msg (LogSharedCodeInitFailed err) s3)
             else
               (let s4 = mbx_init_params s3;
                    s5 = txgbevf_intr_disable D s4;
                    s6 = s5\<lparr>hw := (hw s5)\<lparr>mac_num_rar_entries := 128\<rparr>\<rparr>
                in case mac_reset_hw E s6 of
                     (err, s7) \<Rightarrow>
                       if err \<noteq> 0 \<and> err \<noteq> TXGBE_ERR_INVALID_MAC_ADDR D
                       then Inr (- EAGAIN D, log_msg (LogVfInitFailure err) s7)
                       else init_after_reset D E s7))"

definition eth_txgbevf_dev_init ::
  "txgbe_defs \<Rightarrow> env \<Rightarrow> rte_eth_dev \<Rightarrow> fault + (s32 \<times> rte_eth_dev)" where
  "eth_txgbevf_dev_init D E s =
     (let s1 = s\<lparr>dev_ops := txgbevf_eth_dev_ops\<rparr> in
      if process_type E \<noteq> RTE_PROC_PRIMARY then eth_txgbevf_dev_init_secondary E s1
      else eth_txgbevf_dev_init_primary D E s1)"

section \<open>Capability report\<close>









section \<open>Concrete instances\<close>

text \<open>Example values for the constants, an idle device and a PF that accepts every request.\<close>

definition example_defs :: txgbe_defs where
  "example_defs =
     \<lparr>EIO = 5, EAGAIN = 11, ENOMEM = 12, TXGBE_ERR_INVALID_MAC_ADDR = - 266,
      RTE_ETHER_LOCAL_ADMIN_ADDR = 0x02, TXGBE_VFIMS_MASK = 7, TXGBE_VFIMC_MASK = 7,
      TXGBE_FRAME_SIZE_MAX = 9728, TXGBE_VMDQ_NUM_UC_MAC = 4096, ETH_64_POOLS = 64,
      TXGBE_HKEY_MAX_INDEX = 10, ETH_RSS_RETA_SIZE_128 = 128, TXGBE_RSS_OFFLOAD_ALL = 0xFFFC,
      TXGBE_DEFAULT_RX_PTHRESH = 8, TXGBE_DEFAULT_RX_HTHRESH = 8, TXGBE_DEFAULT_RX_WTHRESH = 0,
      TXGBE_DEFAULT_RX_FREE_THRESH = 32,
      TXGBE_DEFAULT_TX_PTHRESH = 32, TXGBE_DEFAULT_TX_HTHRESH = 0, TXGBE_DEFAULT_TX_WTHRESH = 0,
      TXGBE_DEFAULT_TX_FREE_THRESH = 32,
      TXGBE_RING_DESC_MAX = 8192, TXGBE_RING_DESC_MIN = 128, TXGBE_RXD_ALIGN = 8,
      TXGBE_TXD_ALIGN = 8, TXGBE_TX_MAX_SEG = 40\<rparr>"

definition example_dev :: rte_eth_dev where
  "example_dev =
     \<lparr>dev_ops = no_dev_ops,
      pci_dev = \<lparr>id_vendor_id = 0x8088, id_device_id = 0x1000, id_subsystem_vendor_id = 0,
                 id_subsystem_device_id = 0, mem_resource0_addr = 0x10000, max_vfs = 0\<rparr>,
      hw = \<lparr>device_id = 0, vendor_id = 0, subsystem_device_id = 0, subsystem_vendor_id = 0,
            hw_addr = 0, api_version = txgbe_mbox_api_null,
            mac_perm_addr = EtherAddr 0 0 0 0 0 0, mac_num_rar_entries = 0,
            mac_max_rx_queues = 0, mac_max_tx_queues = 0\<rparr>,
      intr_mask_misc = 0,
      data = \<lparr>mac_addrs = None, nb_tx_queues = 0, tx_queues = None, port_id = 0\<rparr>,
      pci_info_copied = False, tx_pkt_burst = 0, rx_pkt_burst = 0,
      trace = [], logs = []\<rparr>"

definition example_env :: env where
  "example_env =
     \<lparr>process_type = RTE_PROC_PRIMARY,
      ret_code = (\<lambda>k. 0),
      pf_perm_addr = (\<lambda>k. None),
      zmalloc_ok = (\<lambda>k. True),
      rte_rand = (\<lambda>k. 0x1122334455667788),
      little_endian = True,
      txgbe_set_tx_function = (\<lambda>s q. 1),
      txgbe_set_rx_function = (\<lambda>s. 2),
      txgbe_get_rx_queue_offloads = (\<lambda>s. 0x1),
      txgbe_get_rx_port_offloads = (\<lambda>s. 0xE),
      txgbe_get_tx_queue_offloads = (\<lambda>s. 0),
      txgbe_get_tx_port_offloads = (\<lambda>s. 0x3F)\<rparr>"

text \<open>
  A running device with three programmed slots: the permanent address in slot 0 and two
  secondary addresses in slots 2 and 5 of an 8-entry table.
\<close>

definition addr_p :: rte_ether_addr where
  "addr_p = EtherAddr 0x02 0x09 0xC0 0x11 0x22 0x33"

definition addr_a :: rte_ether_addr where
  "addr_a = EtherAddr 0x02 0 0 0 0 0x0A"

definition addr_b :: rte_ether_addr where
  "addr_b = EtherAddr 0x02 0 0 0 0 0x0B"

definition zero_addr :: rte_ether_addr where
  "zero_addr = EtherAddr 0 0 0 0 0 0"

definition running_dev :: rte_eth_dev where
  "running_dev =
     example_dev
       \<lparr>hw := (hw example_dev)\<lparr>mac_perm_addr := addr_p, mac_num_rar_entries := 8,
                                api_version := txgbe_mbox_api_13\<rparr>,
        data := (data example_dev)
                  \<lparr>mac_addrs := Some [addr_p, zero_addr, addr_a, zero_addr, zero_addr, addr_b,
                                      zero_addr, zero_addr]\<rparr>\<rparr>"


text \<open>
  The slots that the replay of \<^verbatim>\<open>txgbevf_remove_mac_addr\<close> is said to submit again, in
  the words of the specification: non-empty, not at the removed position, and different
  from the permanent address, in table order.
\<close>

definition replay_slots :: "rte_ether_addr list \<Rightarrow> rte_ether_addr \<Rightarrow> nat \<Rightarrow> nat \<Rightarrow> nat list" where
  "replay_slots tbl perm n idx =
     filter (\<lambda>j. j \<noteq> idx \<and> tbl ! j \<noteq> EtherAddr 0 0 0 0 0 0 \<and> tbl ! j \<noteq> perm) [0 ..< n]"

text \<open>
  The transmit-queue bookkeeping that the secondary branch of init relies on. Its comment
  and its log message read a \<^verbatim>\<open>NULL\<close> array as ``No TX queues configured yet'': the ethdev
  framework, which owns both fields, keeps the array pointer \<^verbatim>\<open>NULL\<close> exactly while the
  queue count is zero, and an allocated array holds at least as many entries as the count.
\<close>

definition tx_queues_consistent :: "rte_eth_dev_data \<Rightarrow> bool" where
  "tx_queues_consistent d =
     (case tx_queues d of
        None \<Rightarrow> nb_tx_queues d = 0
      | Some qs \<Rightarrow> nb_tx_queues d \<noteq> 0 \<and> unat (nb_tx_queues d) \<le> length qs)"


section \<open>The answers that a run of init consumes\<close>

text \<open>
  A primary-process init started in state \<open>s\<close> appends its calls to the trace of \<open>s\<close>: the
  shared-code init, the mailbox parameter init, the register write and the flush of the
  interrupt disable, the reset, one to four negotiation requests, the queue query, the
  allocation, then (for an all-zero permanent address) the random number and the
  installation of the generated address, and the hardware start. The following names pick
  the environment's answer to each of these calls by its position.
\<close>

definition neg_attempts :: "env \<Rightarrow> nat \<Rightarrow> nat" where
  "neg_attempts E k =
     (if ret_code E k = 0 then 1
      else if ret_code E (k + 1) = 0 then 2
      else if ret_code E (k + 2) = 0 then 3
      else 4)"

definition init_shared_rc :: "env \<Rightarrow> rte_eth_dev \<Rightarrow> s32" where
  "init_shared_rc E s = ret_code E (length (trace s))"

definition init_reset_rc :: "env \<Rightarrow> rte_eth_dev \<Rightarrow> s32" where
  "init_reset_rc E s = ret_code E (length (trace s) + 4)"

definition init_perm_after_reset :: "env \<Rightarrow> rte_eth_dev \<Rightarrow> rte_ether_addr" where
  "init_perm_after_reset E s =
     (case pf_perm_addr E (length (trace s) + 4) of
        None \<Rightarrow> mac_perm_addr (hw s)
      | Some a \<Rightarrow> a)"

definition init_queues_pos :: "env \<Rightarrow> rte_eth_dev \<Rightarrow> nat" where
  "init_queues_pos E s = length (trace s) + 5 + neg_attempts E (length (trace s) + 5)"

definition init_alloc_ok :: "env \<Rightarrow> rte_eth_dev \<Rightarrow> bool" where
  "init_alloc_ok E s = zmalloc_ok E (init_queues_pos E s + 1)"

definition init_random :: "env \<Rightarrow> rte_eth_dev \<Rightarrow> u64" where
  "init_random E s = rte_rand E (init_queues_pos E s + 2)"

definition init_install_rc :: "env \<Rightarrow> rte_eth_dev \<Rightarrow> s32" where
  "init_install_rc E s = ret_code E (init_queues_pos E s + 3)"

definition init_start_rc :: "env \<Rightarrow> rte_eth_dev \<Rightarrow> s32" where
  "init_start_rc E s =
     ret_code E (init_queues_pos E s +
                 (if rte_is_zero_ether_addr (init_perm_after_reset E s) then 4 else 2))"

text \<open>
  The result code of a primary-process init in the words of the specification: I/O class
  for a failed shared-code init, retryable for a failed reset other than ``no MAC address
  assigned'', out of memory for a failed allocation, the installation error itself, I/O
  class for a failed start, and 0 otherwise.
\<close>

definition init_result_code :: "txgbe_defs \<Rightarrow> env \<Rightarrow> rte_eth_dev \<Rightarrow> s32" where
  "init_result_code D E s =
     (if init_shared_rc E s \<noteq> 0 then - EIO D
      else if init_reset_rc E s \<noteq> 0 \<and> init_reset_rc E s \<noteq> TXGBE_ERR_INVALID_MAC_ADDR D
        then - EAGAIN D
      else if \<not> init_alloc_ok E s then - ENOMEM D
      else if rte_is_zero_ether_addr (init_perm_after_reset E s) \<and> init_install_rc E s \<noteq> 0
        then init_install_rc E s
      else if init_start_rc E s \<noteq> 0 then - EIO D
      else 0)"

section \<open>Properties of the negotiation\<close>

lemma negotiate_api_eq:
  "txgbevf_negotiate_api E s =
     (let k = length (trace s); t = trace s in
      if ret_code E k = 0 then
        s\<lparr>hw := (hw s)\<lparr>api_version := txgbe_mbox_api_13\<rparr>,
          trace := t @ [NegotiateApiVersion txgbe_mbox_api_13]\<rparr>
      else if ret_code E (k + 1) = 0 then
        s\<lparr>hw := (hw s)\<lparr>api_version := txgbe_mbox_api_12\<rparr>,
          trace := t @ [NegotiateApiVersion txgbe_mbox_api_13,
                        NegotiateApiVersion txgbe_mbox_api_12]\<rparr>
      else if ret_code E (k + 2) = 0 then
        s\<lparr>hw := (hw s)\<lparr>api_version := txgbe_mbox_api_11\<rparr>,
          trace := t @ [NegotiateApiVersion txgbe_mbox_api_13,
                        NegotiateApiVersion txgbe_mbox_api_12,
                        NegotiateApiVersion txgbe_mbox_api_11]\<rparr>
      else if ret_code E (k + 3) = 0 then
        s\<lparr>hw := (hw s)\<lparr>api_version := txgbe_mbox_api_10\<rparr>,
          trace := t @ [NegotiateApiVersion txgbe_mbox_api_13,
                        NegotiateApiVersion txgbe_mbox_api_12,
                        NegotiateApiVersion txgbe_mbox_api_11,
                        NegotiateApiVersion txgbe_mbox_api_10]\<rparr>
      else
        s\<lparr>trace := t @ [NegotiateApiVersion txgbe_mbox_api_13,
                        NegotiateApiVersion txgbe_mbox_api_12,
                        NegotiateApiVersion txgbe_mbox_api_11,
                        NegotiateApiVersion txgbe_mbox_api_10]\<rparr>)"
  by (simp add: txgbevf_negotiate_api_def sup_ver_def Let_def
      txgbevf_negotiate_api_version_def ext_call_def ext_event_def eval_nat_numeral)

text \<open>
  C2. \<^verbatim>\<open>txgbevf_negotiate_api\<close> tries v13, v12, v11, v10 in this order, each at most once,
  and stops at the first request that succeeds; that candidate becomes the active
  version. The version is written on a successful attempt only: when all four requests
  fail, the state differs from the initial one in the trace alone, so the version in
  effect before (v10 after a reset) stays. The function returns nothing, hence no error.
\<close>

theorem negotiate_api_outcomes:
  "txgbevf_negotiate_api E s =
     (let k = length (trace s); t = trace s in
      if ret_code E k = 0 then
        s\<lparr>hw := (hw s)\<lparr>api_version := txgbe_mbox_api_13\<rparr>,
          trace := t @ [NegotiateApiVersion txgbe_mbox_api_13]\<rparr>
      else if ret_code E (k + 1) = 0 then
        s\<lparr>hw := (hw s)\<lparr>api_version := txgbe_mbox_api_12\<rparr>,
          trace := t @ [NegotiateApiVersion txgbe_mbox_api_13,
                        NegotiateApiVersion txgbe_mbox_api_12]\<rparr>
      else if ret_code E (k + 2) = 0 then
        s\<lparr>hw := (hw s)\<lparr>api_version := txgbe_mbox_api_11\<rparr>,
          trace := t @ [NegotiateApiVersion txgbe_mbox_api_13,
                        NegotiateApiVersion txgbe_mbox_api_12,
                        NegotiateApiVersion txgbe_mbox_api_11]\<rparr>
      else if ret_code E (k + 3) = 0 then
        s\<lparr>hw := (hw s)\<lparr>api_version := txgbe_mbox_api_10\<rparr>,
          trace := t @ [NegotiateApiVersion txgbe_mbox_api_13,
                        NegotiateApiVersion txgbe_mbox_api_12,
                        NegotiateApiVersion txgbe_mbox_api_11,
                        NegotiateApiVersion txgbe_mbox_api_10]\<rparr>
      else
        s\<lparr>trace := t @ [NegotiateApiVersion txgbe_mbox_api_13,
                        NegotiateApiVersion txgbe_mbox_api_12,
                        NegotiateApiVersion txgbe_mbox_api_11,
                        NegotiateApiVersion txgbe_mbox_api_10]\<rparr>)"
  by (rule negotiate_api_eq)

theorem negotiate_api_outcomes_witness:
  "api_version (hw (txgbevf_negotiate_api (example_env\<lparr>ret_code := (\<lambda>k. if k = 1 then 0 else 1)\<rparr>) example_dev)) = txgbe_mbox_api_12
   \<and> trace (txgbevf_negotiate_api (example_env\<lparr>ret_code := (\<lambda>k. if k = 1 then 0 else 1)\<rparr>) example_dev) =
        [NegotiateApiVersion txgbe_mbox_api_13, NegotiateApiVersion txgbe_mbox_api_12]
   \<and> txgbevf_negotiate_api (example_env\<lparr>ret_code := (\<lambda>k. 1)\<rparr>) running_dev =
        running_dev\<lparr>trace := [NegotiateApiVersion txgbe_mbox_api_13, NegotiateApiVersion txgbe_mbox_api_12,
          NegotiateApiVersion txgbe_mbox_api_11, NegotiateApiVersion txgbe_mbox_api_10]\<rparr>"
  using negotiate_api_outcomes [of "example_env\<lparr>ret_code := (\<lambda>k. if k = 1 then 0 else 1)\<rparr>" example_dev]
    negotiate_api_outcomes [of "example_env\<lparr>ret_code := (\<lambda>k. 1)\<rparr>" running_dev]
  by (simp add: example_env_def example_dev_def running_dev_def)

section \<open>Properties of the interrupt mask\<close>

lemma intr_disable_eq:
  "txgbevf_intr_disable D s =
     s\<lparr>intr_mask_misc := TXGBE_VFIMS_MASK D,
       trace := trace s @ [Wr32 TXGBE_VFIMS (TXGBE_VFIMS_MASK D), Flush]\<rparr>"
  by (simp add: txgbevf_intr_disable_def wr32_def txgbe_flush_def ext_event_def)

lemma intr_enable_eq:
  "txgbevf_intr_enable D s =
     s\<lparr>intr_mask_misc := 0,
       trace := trace s @ [Wr32 TXGBE_VFIMC (TXGBE_VFIMC_MASK D), Flush]\<rparr>"
  by (simp add: txgbevf_intr_enable_def wr32_def txgbe_flush_def ext_event_def)

lemma intr_step_eq:
  "intr_step D s op = s\<lparr>intr_mask_misc := intr_mirror D op, trace := trace s @ intr_events D op\<rparr>"
  by (cases op) (simp_all add: intr_disable_eq intr_enable_eq)

lemma intr_run_snoc: "intr_run D (ops @ [op]) s = intr_step D (intr_run D ops s) op"
  by (simp add: intr_run_def)

lemma intr_run_trace:
  "trace (intr_run D ops s) = trace s @ concat (map (intr_events D) ops)"
  by (induction ops rule: rev_induct) (simp_all add: intr_run_snoc intr_step_eq intr_run_def)

text \<open>
  C9. \<^verbatim>\<open>txgbevf_intr_disable\<close> writes the mask pattern to the mask-set register, flushes,
  and then stores the pattern in the mirror; \<^verbatim>\<open>txgbevf_intr_enable\<close> writes the pattern to
  the mask-clear register, flushes, and then stores zero. After any sequence of the two
  operations the mirror holds the value of the last one, and the register accesses appear
  in the trace in the order of the operations.
\<close>

theorem intr_mask_mirror:
  "txgbevf_intr_disable D s =
     (txgbe_flush (wr32 TXGBE_VFIMS (TXGBE_VFIMS_MASK D) s))\<lparr>intr_mask_misc := TXGBE_VFIMS_MASK D\<rparr>
   \<and> txgbevf_intr_enable D s =
     (txgbe_flush (wr32 TXGBE_VFIMC (TXGBE_VFIMC_MASK D) s))\<lparr>intr_mask_misc := 0\<rparr>
   \<and> intr_mask_misc (txgbevf_intr_disable D s) = TXGBE_VFIMS_MASK D
   \<and> trace (txgbevf_intr_disable D s) = trace s @ [Wr32 TXGBE_VFIMS (TXGBE_VFIMS_MASK D), Flush]
   \<and> intr_mask_misc (txgbevf_intr_enable D s) = 0
   \<and> trace (txgbevf_intr_enable D s) = trace s @ [Wr32 TXGBE_VFIMC (TXGBE_VFIMC_MASK D), Flush]
   \<and> intr_mask_misc (intr_run D (ops @ [op]) s) = intr_mirror D op
   \<and> trace (intr_run D ops s) = trace s @ concat (map (intr_events D) ops)"
  by (simp add: intr_run_snoc intr_step_eq intr_run_trace intr_disable_eq intr_enable_eq
      wr32_def txgbe_flush_def ext_event_def)

theorem intr_mask_mirror_witness:
  "intr_mask_misc (intr_run example_defs [Enable, Disable, Disable, Enable] example_dev) = 0
   \<and> intr_mask_misc (intr_run example_defs [Enable, Disable] example_dev) = 7
   \<and> trace (intr_run example_defs [Enable, Disable] example_dev) =
       [Wr32 TXGBE_VFIMC 7, Flush, Wr32 TXGBE_VFIMS 7, Flush]"
  using intr_mask_mirror [of example_defs example_dev "[Enable, Disable, Disable]" Enable]
    intr_mask_mirror [of example_defs example_dev "[Enable]" Disable]
    intr_mask_mirror [of example_defs example_dev "[Enable, Disable]" Enable]
  by (simp add: example_defs_def example_dev_def)

section \<open>Properties of the address table\<close>

lemma add_mac_addr_eq:
  "txgbevf_add_mac_addr E s a index pool =
     (if a = mac_perm_addr (hw s) then (- 1, s)
      else
        (let rc = ret_code E (length (trace s));
             s1 = s\<lparr>trace := trace s @ [add_unicast a]\<rparr>
         in (rc, if rc \<noteq> 0 then s1\<lparr>logs := logs s @ [LogAddMacFailed a rc]\<rparr> else s1)))"
  by (auto simp add: txgbevf_add_mac_addr_def txgbevf_set_uc_addr_vf_def ext_call_def
      ext_event_def log_msg_def Let_def)


text \<open>
  C3. Adding the stored permanent address returns \<open>-1\<close> and leaves the whole state as it
  was, so no mailbox request is issued. Any other address is forwarded as exactly one
  ``add unicast address'' request, whose result code is returned as it is; the table is
  not consulted, and apart from the trace and the log the device is unchanged.
\<close>

theorem add_mac_addr_result:
  "txgbevf_add_mac_addr E s a index pool =
     (if a = mac_perm_addr (hw s) then (- 1, s)
      else
        (let rc = ret_code E (length (trace s));
             s1 = s\<lparr>trace := trace s @ [add_unicast a]\<rparr>
         in (rc, if rc \<noteq> 0 then s1\<lparr>logs := logs s @ [LogAddMacFailed a rc]\<rparr> else s1)))"
  by (rule add_mac_addr_eq)

theorem add_mac_addr_result_witness:
  "txgbevf_add_mac_addr example_env running_dev addr_p 1 0 = (- 1, running_dev)
   \<and> txgbevf_add_mac_addr example_env running_dev addr_a 1 0 =
       (0, running_dev\<lparr>trace := [add_unicast addr_a]\<rparr>)
   \<and> txgbevf_add_mac_addr (example_env\<lparr>ret_code := (\<lambda>k. - 100)\<rparr>) running_dev addr_a 1 0 =
       (- 100, running_dev\<lparr>trace := [add_unicast addr_a],
                            logs := [LogAddMacFailed addr_a (- 100)]\<rparr>)"
  using add_mac_addr_result [of example_env running_dev addr_p 1 0]
    add_mac_addr_result [of example_env running_dev addr_a 1 0]
    add_mac_addr_result [of "example_env\<lparr>ret_code := (\<lambda>k. - 100)\<rparr>" running_dev addr_a 1 0]
  by (simp add: example_env_def running_dev_def example_dev_def addr_p_def addr_a_def)

lemma remove_loop_replay:
  assumes "mac_addrs (data s) = Some tbl" and "list_all (\<lambda>j. j < length tbl) js"
  shows "\<exists>l. remove_loop E index js s =
           Inr (s\<lparr>trace := trace s @ map (\<lambda>j. add_unicast (tbl ! j))
                      (filter (\<lambda>j. j \<noteq> unat index \<and> tbl ! j \<noteq> EtherAddr 0 0 0 0 0 0 \<and>
                                  tbl ! j \<noteq> mac_perm_addr (hw s)) js),
                  logs := logs s @ l\<rparr>)"
  using assms
proof (induction js arbitrary: s)
  case Nil
  have "s = s\<lparr>logs := logs s @ []\<rparr>" by simp
  then have "\<exists>l. s = s\<lparr>logs := logs s @ l\<rparr>" by (rule exI)
  then show ?case by simp
next
  case (Cons i js)
  have tbl: "mac_addrs (data s) = Some tbl" and i: "i < length tbl"
    and js: "list_all (\<lambda>j. j < length tbl) js"
    using Cons.prems by simp_all
  show ?case
  proof (cases "i \<noteq> unat index \<and> tbl ! i \<noteq> EtherAddr 0 0 0 0 0 0 \<and> tbl ! i \<noteq> mac_perm_addr (hw s)")
    case False
    have "remove_loop E index (i # js) s = remove_loop E index js s"
      using False tbl i by (auto simp add: read_mac_addr_def rte_is_zero_ether_addr_def)
    moreover have "filter (\<lambda>j. j \<noteq> unat index \<and> tbl ! j \<noteq> EtherAddr 0 0 0 0 0 0 \<and>
                                  tbl ! j \<noteq> mac_perm_addr (hw s)) (i # js) =
                   filter (\<lambda>j. j \<noteq> unat index \<and> tbl ! j \<noteq> EtherAddr 0 0 0 0 0 0 \<and>
                                  tbl ! j \<noteq> mac_perm_addr (hw s)) js"
      using False by simp
    ultimately show ?thesis
      using Cons.IH [OF tbl js] by simp
  next
    case True
    define rc where "rc = ret_code E (length (trace s))"
    define s1 where "s1 = s\<lparr>trace := trace s @ [add_unicast (tbl ! i)]\<rparr>"
    define l1 where "l1 = (if rc \<noteq> 0 then [LogReAddMacFailed (tbl ! i) rc] else [])"
    define s2 where "s2 = s1\<lparr>logs := logs s @ l1\<rparr>"
    have ne: "mac_perm_addr (hw s) \<noteq> tbl ! i"
      using True by auto
    have step: "remove_loop E index (i # js) s = remove_loop E index js s2"
      using True tbl i ne
      by (simp add: read_mac_addr_def rte_is_zero_ether_addr_def txgbevf_set_uc_addr_vf_def
          ext_call_def ext_event_def s2_def s1_def l1_def rc_def log_msg_def)
    have tbl2: "mac_addrs (data s2) = Some tbl"
      using tbl by (simp add: s2_def s1_def)
    from Cons.IH [OF tbl2 js] obtain l where
      run: "remove_loop E index js s2 =
              Inr (s2\<lparr>trace := trace s2 @ map (\<lambda>j. add_unicast (tbl ! j))
                      (filter (\<lambda>j. j \<noteq> unat index \<and> tbl ! j \<noteq> EtherAddr 0 0 0 0 0 0 \<and>
                                  tbl ! j \<noteq> mac_perm_addr (hw s2)) js),
                  logs := logs s2 @ l\<rparr>)"
      by blast
    have "remove_loop E index (i # js) s =
           Inr (s\<lparr>trace := trace s @ map (\<lambda>j. add_unicast (tbl ! j))
                      (filter (\<lambda>j. j \<noteq> unat index \<and> tbl ! j \<noteq> EtherAddr 0 0 0 0 0 0 \<and>
                                  tbl ! j \<noteq> mac_perm_addr (hw s)) (i # js)),
                  logs := logs s @ (l1 @ l)\<rparr>)"
      unfolding step run using True by (simp add: s2_def s1_def)
    then show ?thesis by blast
  qed
qed

lemma remove_mac_addr_replay:
  assumes "mac_addrs (data s) = Some tbl"
    and "unat (mac_num_rar_entries (hw s)) \<le> length tbl"
  shows "\<exists>l. txgbevf_remove_mac_addr E s index =
           Inr (s\<lparr>trace := trace s @ clear_all_unicast #
                      map (\<lambda>j. add_unicast (tbl ! j))
                        (replay_slots tbl (mac_perm_addr (hw s))
                           (unat (mac_num_rar_entries (hw s))) (unat index)),
                  logs := logs s @ l\<rparr>)"
proof -
  define s1 where "s1 = s\<lparr>trace := trace s @ [clear_all_unicast]\<rparr>"
  have run: "txgbevf_remove_mac_addr E s index =
               remove_loop E index [0 ..< unat (mac_num_rar_entries (hw s))] s1"
    by (simp add: txgbevf_remove_mac_addr_def txgbevf_set_uc_addr_vf_def ext_call_def
        ext_event_def s1_def)
  have tbl1: "mac_addrs (data s1) = Some tbl"
    using assms(1) by (simp add: s1_def)
  have bound: "list_all (\<lambda>j. j < length tbl) [0 ..< unat (mac_num_rar_entries (hw s))]"
    using assms(2) by (simp add: list_all_iff)
  from remove_loop_replay [OF tbl1 bound, of E index] obtain l where
    r: "remove_loop E index [0 ..< unat (mac_num_rar_entries (hw s))] s1 =
          Inr (s1\<lparr>trace := trace s1 @ map (\<lambda>j. add_unicast (tbl ! j))
                      (filter (\<lambda>j. j \<noteq> unat index \<and> tbl ! j \<noteq> EtherAddr 0 0 0 0 0 0 \<and>
                                  tbl ! j \<noteq> mac_perm_addr (hw s1)) [0 ..< unat (mac_num_rar_entries (hw s))]),
                  logs := logs s1 @ l\<rparr>)"
    by blast
  have "txgbevf_remove_mac_addr E s index =
           Inr (s\<lparr>trace := trace s @ clear_all_unicast #
                      map (\<lambda>j. add_unicast (tbl ! j))
                        (replay_slots tbl (mac_perm_addr (hw s))
                           (unat (mac_num_rar_entries (hw s))) (unat index)),
                  logs := logs s @ l\<rparr>)"
    unfolding run r by (simp add: s1_def replay_slots_def)
  then show ?thesis by blast
qed

lemma replay_slots_props:
  "idx \<notin> set (replay_slots tbl perm n idx)
   \<and> perm \<notin> set (map (\<lambda>j. tbl ! j) (replay_slots tbl perm n idx))
   \<and> EtherAddr 0 0 0 0 0 0 \<notin> set (map (\<lambda>j. tbl ! j) (replay_slots tbl perm n idx))
   \<and> sorted_wrt (<) (replay_slots tbl perm n idx)"
  by (auto simp add: replay_slots_def sorted_wrt_filter)

text \<open>
  C1. On a table with at least \<^verbatim>\<open>num_rar_entries\<close> entries, \<^verbatim>\<open>txgbevf_remove_mac_addr\<close>
  completes and, whatever the mailbox answers, adds to the trace one ``clear all unicast
  addresses'' request followed by one ``add unicast address'' request for each slot that
  is non-empty, is not at the removed position and differs from the permanent address, in
  increasing slot order, each slot once. The removed position and the permanent address
  are not among them. Apart from the trace and failure log entries the device is unchanged.
\<close>

theorem remove_mac_addr_replays:
  assumes "mac_addrs (data s) = Some tbl"
    and "unat (mac_num_rar_entries (hw s)) \<le> length tbl"
  shows "\<exists>l slots.
           slots = replay_slots tbl (mac_perm_addr (hw s))
                     (unat (mac_num_rar_entries (hw s))) (unat index)
           \<and> txgbevf_remove_mac_addr E s index =
               Inr (s\<lparr>trace := trace s @ clear_all_unicast # map (\<lambda>j. add_unicast (tbl ! j)) slots,
                      logs := logs s @ l\<rparr>)
           \<and> unat index \<notin> set slots
           \<and> mac_perm_addr (hw s) \<notin> set (map (\<lambda>j. tbl ! j) slots)
           \<and> EtherAddr 0 0 0 0 0 0 \<notin> set (map (\<lambda>j. tbl ! j) slots)
           \<and> sorted_wrt (<) slots"
  using remove_mac_addr_replay [OF assms, of E index]
    replay_slots_props [of "unat index" tbl "mac_perm_addr (hw s)" "unat (mac_num_rar_entries (hw s))"]
  by blast

lemma running_slots: "replay_slots [addr_p, zero_addr, addr_a, zero_addr, zero_addr, addr_b,
                                      zero_addr, zero_addr] addr_p 8 2 = [5]"
  by (simp add: replay_slots_def upt_rec addr_p_def addr_a_def addr_b_def zero_addr_def)

theorem remove_mac_addr_replays_witness:
  "\<exists>l. txgbevf_remove_mac_addr example_env running_dev 2 =
         Inr (running_dev\<lparr>trace := [clear_all_unicast, add_unicast addr_b], logs := l\<rparr>)"
proof -
  have t: "mac_addrs (data running_dev) =
             Some [addr_p, zero_addr, addr_a, zero_addr, zero_addr, addr_b, zero_addr, zero_addr]"
    by (simp add: running_dev_def)
  have n: "unat (mac_num_rar_entries (hw running_dev)) \<le>
             length [addr_p, zero_addr, addr_a, zero_addr, zero_addr, addr_b, zero_addr, zero_addr]"
    by (simp add: running_dev_def)
  have p: "mac_perm_addr (hw running_dev) = addr_p" "unat (mac_num_rar_entries (hw running_dev)) = 8"
    "trace running_dev = []" "logs running_dev = []"
    by (simp_all add: running_dev_def example_dev_def)
  from remove_mac_addr_replays [OF t n, where E = example_env and index = 2] show ?thesis
    by (simp add: p running_slots)
qed

lemma set_default_mac_addr_eq:
  "txgbevf_set_default_mac_addr E s new = (0, s\<lparr>trace := trace s @ [SetRar 0 new 0 0]\<rparr>)"
  by (simp add: txgbevf_set_default_mac_addr_def mac_set_rar_def ext_call_def ext_event_def)

text \<open>
  C10. \<^verbatim>\<open>txgbevf_set_default_mac_addr\<close> returns 0 and its only effect is the call that
  programs hardware slot 0: the stored permanent address and the address table stay as
  they were. Hence a following add rejects exactly the original permanent address, and
  the replay of a following remove skips the entries equal to the original permanent
  address.
\<close>

theorem set_default_mac_addr_frame:
  assumes "mac_addrs (data s) = Some tbl"
    and "unat (mac_num_rar_entries (hw s)) \<le> length tbl"
  shows "\<exists>s1 l.
           txgbevf_set_default_mac_addr E s new = (0, s1)
           \<and> s1 = s\<lparr>trace := trace s @ [SetRar 0 new 0 0]\<rparr>
           \<and> mac_perm_addr (hw s1) = mac_perm_addr (hw s)
           \<and> mac_addrs (data s1) = mac_addrs (data s)
           \<and> txgbevf_add_mac_addr E s1 a index pool =
               (if a = mac_perm_addr (hw s) then (- 1, s1)
                else
                  (let rc = ret_code E (length (trace s1));
                       s2 = s1\<lparr>trace := trace s1 @ [add_unicast a]\<rparr>
                   in (rc, if rc \<noteq> 0 then s2\<lparr>logs := logs s1 @ [LogAddMacFailed a rc]\<rparr> else s2)))
           \<and> txgbevf_remove_mac_addr E s1 idx =
               Inr (s1\<lparr>trace := trace s1 @ clear_all_unicast #
                          map (\<lambda>j. add_unicast (tbl ! j))
                            (replay_slots tbl (mac_perm_addr (hw s))
                               (unat (mac_num_rar_entries (hw s))) (unat idx)),
                       logs := logs s1 @ l\<rparr>)"
proof -
  define s1 where "s1 = s\<lparr>trace := trace s @ [SetRar 0 new 0 0]\<rparr>"
  have tbl1: "mac_addrs (data s1) = Some tbl"
    and n1: "unat (mac_num_rar_entries (hw s1)) \<le> length tbl"
    and hw1: "hw s1 = hw s"
    using assms by (simp_all add: s1_def)
  from remove_mac_addr_replay [OF tbl1 n1, of E idx] obtain l where
    "txgbevf_remove_mac_addr E s1 idx =
               Inr (s1\<lparr>trace := trace s1 @ clear_all_unicast #
                          map (\<lambda>j. add_unicast (tbl ! j))
                            (replay_slots tbl (mac_perm_addr (hw s))
                               (unat (mac_num_rar_entries (hw s))) (unat idx)),
                       logs := logs s1 @ l\<rparr>)"
    unfolding hw1 by blast
  moreover have "txgbevf_set_default_mac_addr E s new = (0, s1)"
    by (simp add: set_default_mac_addr_eq s1_def)
  moreover have "mac_perm_addr (hw s1) = mac_perm_addr (hw s)"
    "mac_addrs (data s1) = mac_addrs (data s)"
    by (simp_all add: s1_def)
  moreover have "txgbevf_add_mac_addr E s1 a index pool =
               (if a = mac_perm_addr (hw s) then (- 1, s1)
                else
                  (let rc = ret_code E (length (trace s1));
                       s2 = s1\<lparr>trace := trace s1 @ [add_unicast a]\<rparr>
                   in (rc, if rc \<noteq> 0 then s2\<lparr>logs := logs s1 @ [LogAddMacFailed a rc]\<rparr> else s2)))"
    unfolding add_mac_addr_eq hw1 ..
  ultimately show ?thesis
    using s1_def by blast
qed

lemma running_slots_5: "replay_slots [addr_p, zero_addr, addr_a, zero_addr, zero_addr, addr_b,
                                      zero_addr, zero_addr] addr_p 8 5 = [2]"
  by (simp add: replay_slots_def upt_rec addr_p_def addr_a_def addr_b_def zero_addr_def)

theorem set_default_mac_addr_frame_witness:
  "\<exists>l. txgbevf_set_default_mac_addr example_env running_dev addr_a =
           (0, running_dev\<lparr>trace := [SetRar 0 addr_a 0 0]\<rparr>)
     \<and> txgbevf_add_mac_addr example_env (running_dev\<lparr>trace := [SetRar 0 addr_a 0 0]\<rparr>) addr_p 1 0 =
           (- 1, running_dev\<lparr>trace := [SetRar 0 addr_a 0 0]\<rparr>)
     \<and> txgbevf_add_mac_addr example_env (running_dev\<lparr>trace := [SetRar 0 addr_a 0 0]\<rparr>) addr_a 1 0 =
           (0, running_dev\<lparr>trace := [SetRar 0 addr_a 0 0, add_unicast addr_a]\<rparr>)
     \<and> txgbevf_remove_mac_addr example_env (running_dev\<lparr>trace := [SetRar 0 addr_a 0 0]\<rparr>) 5 =
           Inr (running_dev\<lparr>trace := [SetRar 0 addr_a 0 0, clear_all_unicast, add_unicast addr_a],
                            logs := l\<rparr>)"
proof -
  have t: "mac_addrs (data running_dev) =
             Some [addr_p, zero_addr, addr_a, zero_addr, zero_addr, addr_b, zero_addr, zero_addr]"
    by (simp add: running_dev_def)
  have n: "unat (mac_num_rar_entries (hw running_dev)) \<le>
             length [addr_p, zero_addr, addr_a, zero_addr, zero_addr, addr_b, zero_addr, zero_addr]"
    by (simp add: running_dev_def)
  have p: "mac_perm_addr (hw running_dev) = addr_p" "unat (mac_num_rar_entries (hw running_dev)) = 8"
    "trace running_dev = []" "logs running_dev = []"
    by (simp_all add: running_dev_def example_dev_def)
  have r: "ret_code example_env = (\<lambda>k. 0)"
    by (simp add: example_env_def)
  have ne: "addr_a \<noteq> addr_p" "addr_p \<noteq> addr_a"
    by (simp_all add: addr_a_def addr_p_def)
  from set_default_mac_addr_frame [OF t n, where E = example_env and new = addr_a and a = addr_p
      and idx = 5 and index = 1 and pool = 0]
    set_default_mac_addr_frame [OF t n, where E = example_env and new = addr_a and a = addr_a
      and idx = 5 and index = 1 and pool = 0]
  show ?thesis
    by (simp add: p r ne running_slots_5 Let_def)
qed

section \<open>Properties of the capability report\<close>






section \<open>Properties of the secondary-process attach\<close>

lemma init_secondary_null_eq:
  assumes "process_type E \<noteq> RTE_PROC_PRIMARY" and "tx_queues (data s) = None"
  shows "eth_txgbevf_dev_init D E s =
           Inr (0, s\<lparr>dev_ops := txgbevf_eth_dev_ops,
                     rx_pkt_burst :=
                       txgbe_set_rx_function E
                         (s\<lparr>dev_ops := txgbevf_eth_dev_ops, logs := logs s @ [LogNoTxQueues]\<rparr>),
                     logs := logs s @ [LogNoTxQueues]\<rparr>)"
  using assms
  by (simp add: eth_txgbevf_dev_init_def eth_txgbevf_dev_init_secondary_def Let_def log_msg_def)




text \<open>
  With a non-\<^verbatim>\<open>NULL\<close> array the indexing is always evaluated: it is out of bounds when the
  count is zero or exceeds the array, and otherwise picks the last configured queue.
\<close>

lemma uint_pred_neg_iff: "uint n < 1 \<longleftrightarrow> n = 0" for n :: u16
  using uint_ge_0 [of n] uint_0_iff [of n] by linarith

lemma uint_pred_ge_iff: "int m < uint n \<longleftrightarrow> m < unat n" for n :: u16
  unfolding unat_eq_nat_uint using uint_ge_0 [of n] by linarith

lemma nat_uint_pred: "nat (uint n - 1) = unat n - 1" for n :: u16
  unfolding unat_eq_nat_uint using uint_ge_0 [of n] by linarith

lemma init_secondary_array_present:
  assumes "process_type E \<noteq> RTE_PROC_PRIMARY" and "tx_queues (data s) = Some qs"
  shows "eth_txgbevf_dev_init D E s =
           (if nb_tx_queues (data s) = 0 \<or> length qs < unat (nb_tx_queues (data s))
            then Inl OutOfBounds
            else
              (let s1 = s\<lparr>dev_ops := txgbevf_eth_dev_ops\<rparr>;
                   s2 = s1\<lparr>tx_pkt_burst :=
                            txgbe_set_tx_function E s1 (qs ! (unat (nb_tx_queues (data s)) - 1))\<rparr>
               in Inr (0, s2\<lparr>rx_pkt_burst := txgbe_set_rx_function E s2\<rparr>)))"
  using assms
  by (simp add: eth_txgbevf_dev_init_def eth_txgbevf_dev_init_secondary_def Let_def
      uint_pred_neg_iff uint_pred_ge_iff nat_uint_pred)

text \<open>
  Hence a secondary-process attach never faults on consistent queue bookkeeping, and it
  never touches the trace or the hardware handle.
\<close>

lemma init_secondary_no_fault:
  assumes "process_type E \<noteq> RTE_PROC_PRIMARY" and "tx_queues_consistent (data s)"
  shows "\<exists>s'. eth_txgbevf_dev_init D E s = Inr (0, s') \<and> trace s' = trace s \<and> hw s' = hw s
           \<and> data s' = data s \<and> intr_mask_misc s' = intr_mask_misc s"
proof (cases "tx_queues (data s)")
  case None
  show ?thesis
    unfolding init_secondary_null_eq [OF assms(1) None] by simp
next
  case (Some qs)
  with assms(2) have "\<not> (nb_tx_queues (data s) = 0 \<or> length qs < unat (nb_tx_queues (data s)))"
    by (simp add: tx_queues_consistent_def)
  then show ?thesis
    unfolding init_secondary_array_present [OF assms(1) Some] by (simp add: Let_def)
qed

section \<open>Properties of the primary-process init\<close>

lemma neg_attempts_le: "neg_attempts E k \<le> 4"
  by (simp add: neg_attempts_def)

lemma negotiate_api_frame:
  "\<exists>v. txgbevf_negotiate_api E s =
     s\<lparr>hw := (hw s)\<lparr>api_version := v\<rparr>,
       trace := trace s @ map NegotiateApiVersion
                  (take (neg_attempts E (length (trace s))) sup_ver)\<rparr>"
proof -
  let ?k = "length (trace s)"
  consider (a) "ret_code E ?k = 0"
    | (b) "ret_code E ?k \<noteq> 0" "ret_code E (?k + 1) = 0"
    | (c) "ret_code E ?k \<noteq> 0" "ret_code E (?k + 1) \<noteq> 0" "ret_code E (?k + 2) = 0"
    | (d) "ret_code E ?k \<noteq> 0" "ret_code E (?k + 1) \<noteq> 0" "ret_code E (?k + 2) \<noteq> 0"
          "ret_code E (?k + 3) = 0"
    | (e) "ret_code E ?k \<noteq> 0" "ret_code E (?k + 1) \<noteq> 0" "ret_code E (?k + 2) \<noteq> 0"
          "ret_code E (?k + 3) \<noteq> 0"
    by blast
  then show ?thesis
  proof cases
    case a
    then show ?thesis
      by (intro exI [of _ txgbe_mbox_api_13])
        (simp add: negotiate_api_eq neg_attempts_def sup_ver_def)
  next
    case b
    then show ?thesis
      by (intro exI [of _ txgbe_mbox_api_12])
        (simp add: negotiate_api_eq neg_attempts_def sup_ver_def)
  next
    case c
    then show ?thesis
      by (intro exI [of _ txgbe_mbox_api_11])
        (simp add: negotiate_api_eq neg_attempts_def sup_ver_def)
  next
    case d
    then show ?thesis
      by (intro exI [of _ txgbe_mbox_api_10])
        (simp add: negotiate_api_eq neg_attempts_def sup_ver_def)
  next
    case e
    then show ?thesis
      by (intro exI [of _ "api_version (hw s)"])
        (simp add: negotiate_api_eq neg_attempts_def sup_ver_def)
  qed
qed

lemma init_start_eq:
  "init_start D E s =
     (let rc = ret_code E (length (trace s)) in
      if rc \<noteq> 0
      then (- EIO D, s\<lparr>trace := trace s @ [StartHw], logs := logs s @ [LogVfInitFailure rc]\<rparr>)
      else (0, s\<lparr>intr_mask_misc := 0,
                 trace := trace s @ [StartHw, Wr32 TXGBE_VFIMC (TXGBE_VFIMC_MASK D), Flush],
                 logs := logs s @ [LogPortInfo]\<rparr>))"
  by (simp add: init_start_def mac_start_hw_def ext_call_def ext_event_def log_msg_def
      intr_enable_eq Let_def)


lemma init_resolve_addr_nonzero:
  assumes "mac_addrs (data s) = Some tbl" and "tbl \<noteq> []"
    and "\<not> rte_is_zero_ether_addr (mac_perm_addr (hw s))"
  shows "init_resolve_addr D E s =
           Inr (init_start D E
                  (s\<lparr>data := (data s)\<lparr>mac_addrs := Some (tbl[0 := mac_perm_addr (hw s)])\<rparr>\<rparr>))"
  using assms by (simp add: init_resolve_addr_def init_copy_and_start_def copy_perm_addr_def)

lemma init_resolve_addr_install_failed:
  assumes "rte_is_zero_ether_addr (mac_perm_addr (hw s))"
    and "ret_code E (length (trace s) + 1) \<noteq> 0"
  shows "init_resolve_addr D E s =
           (let a = random_mac_addr D (little_endian E) (rte_rand E (length (trace s))) in
            Inr (ret_code E (length (trace s) + 1),
                 s\<lparr>hw := (hw s)\<lparr>mac_perm_addr := a\<rparr>,
                   data := (data s)\<lparr>mac_addrs := None\<rparr>,
                   trace := trace s @ [Rand, SetRarVf 1 a 0 1, Free]\<rparr>))"
  using assms
  by (simp add: init_resolve_addr_def generate_random_mac_addr_def txgbe_set_rar_vf_def
      rte_free_def ext_call_def ext_event_def Let_def)

lemma init_resolve_addr_installed:
  assumes "rte_is_zero_ether_addr (mac_perm_addr (hw s))"
    and "ret_code E (length (trace s) + 1) = 0"
    and "mac_addrs (data s) = Some tbl" and "tbl \<noteq> []"
  shows "init_resolve_addr D E s =
           (let a = random_mac_addr D (little_endian E) (rte_rand E (length (trace s))) in
            Inr (init_start D E
                   (s\<lparr>hw := (hw s)\<lparr>mac_perm_addr := a\<rparr>,
                      trace := trace s @ [Rand, SetRarVf 1 a 0 1],
                      logs := logs s @ [LogMacNotAssigned, LogRandomMac a],
                      data := (data s)\<lparr>mac_addrs := Some (tbl[0 := a])\<rparr>\<rparr>)))"
  using assms
  by (simp add: init_resolve_addr_def generate_random_mac_addr_def txgbe_set_rar_vf_def
      init_copy_and_start_def copy_perm_addr_def log_msg_def
      ext_call_def ext_event_def Let_def)


lemma init_after_reset_alloc_failed:
  assumes "\<not> zmalloc_ok E (length (trace s) + neg_attempts E (length (trace s)) + 1)"
  shows "\<exists>s'. init_after_reset D E s = Inr (- ENOMEM D, s')"
proof -
  obtain v where
    n: "txgbevf_negotiate_api E s =
          s\<lparr>hw := (hw s)\<lparr>api_version := v\<rparr>,
            trace := trace s @ map NegotiateApiVersion
                       (take (neg_attempts E (length (trace s))) sup_ver)\<rparr>"
    using negotiate_api_frame by blast
  have len: "min (length sup_ver) (neg_attempts E (length (trace s))) =
               neg_attempts E (length (trace s))"
    using neg_attempts_le [of E "length (trace s)"] by (simp add: sup_ver_def)
  show ?thesis
    using assms unfolding init_after_reset_def n
    by (simp add: txgbevf_get_queues_def rte_zmalloc_def ext_call_def ext_event_def Let_def len)
qed

lemma init_after_reset_allocated:
  assumes "zmalloc_ok E (length (trace s) + neg_attempts E (length (trace s)) + 1)"
    and "mac_num_rar_entries (hw s) = 128"
  shows "\<exists>s9. init_after_reset D E s = init_resolve_addr D E s9
           \<and> trace s9 = trace s @ map NegotiateApiVersion
                            (take (neg_attempts E (length (trace s))) sup_ver)
                          @ [GetQueues, Zmalloc 768]
           \<and> mac_perm_addr (hw s9) = mac_perm_addr (hw s)
           \<and> mac_addrs (data s9) = Some (replicate 128 (EtherAddr 0 0 0 0 0 0))"
proof -
  obtain v where
    n: "txgbevf_negotiate_api E s =
          s\<lparr>hw := (hw s)\<lparr>api_version := v\<rparr>,
            trace := trace s @ map NegotiateApiVersion
                       (take (neg_attempts E (length (trace s))) sup_ver)\<rparr>"
    using negotiate_api_frame by blast
  have len: "min (length sup_ver) (neg_attempts E (length (trace s))) =
               neg_attempts E (length (trace s))"
    using neg_attempts_le [of E "length (trace s)"] by (simp add: sup_ver_def)
  show ?thesis
    using assms unfolding init_after_reset_def n
    apply (simp add: txgbevf_get_queues_def rte_zmalloc_def ext_call_def ext_event_def Let_def len)
    apply (intro exI conjI)
       apply (rule refl)
      apply simp_all
    done
qed

lemma init_primary_shared_failed:
  assumes "process_type E = RTE_PROC_PRIMARY" and "ret_code E (length (trace s)) \<noteq> 0"
  shows "\<exists>s'. eth_txgbevf_dev_init D E s = Inr (- EIO D, s')"
  using assms
  by (simp add: eth_txgbevf_dev_init_def eth_txgbevf_dev_init_primary_def
      rte_eth_copy_pci_info_def txgbe_init_shared_code_def ext_call_def ext_event_def Let_def)

lemma init_primary_reset_failed:
  assumes "process_type E = RTE_PROC_PRIMARY" and "ret_code E (length (trace s)) = 0"
    and "ret_code E (length (trace s) + 4) \<noteq> 0"
    and "ret_code E (length (trace s) + 4) \<noteq> TXGBE_ERR_INVALID_MAC_ADDR D"
  shows "\<exists>s'. eth_txgbevf_dev_init D E s = Inr (- EAGAIN D, s')"
  using assms
  by (simp add: eth_txgbevf_dev_init_def eth_txgbevf_dev_init_primary_def
      rte_eth_copy_pci_info_def txgbe_init_shared_code_def mbx_init_params_def
      intr_disable_eq mac_reset_hw_def ext_call_def ext_event_def Let_def eval_nat_numeral)

lemma init_primary_reset_done:
  assumes "process_type E = RTE_PROC_PRIMARY" and "ret_code E (length (trace s)) = 0"
    and "ret_code E (length (trace s) + 4) = 0
         \<or> ret_code E (length (trace s) + 4) = TXGBE_ERR_INVALID_MAC_ADDR D"
  shows "\<exists>s7. eth_txgbevf_dev_init D E s = init_after_reset D E s7
           \<and> trace s7 = trace s @ [InitSharedCode, MbxInitParams,
                                    Wr32 TXGBE_VFIMS (TXGBE_VFIMS_MASK D), Flush, ResetHw]
           \<and> mac_perm_addr (hw s7) = init_perm_after_reset E s
           \<and> mac_num_rar_entries (hw s7) = 128"
proof -
  have "\<exists>s7. eth_txgbevf_dev_init_primary D E (s\<lparr>dev_ops := txgbevf_eth_dev_ops\<rparr>) =
               init_after_reset D E s7
           \<and> trace s7 = trace s @ [InitSharedCode, MbxInitParams,
                                    Wr32 TXGBE_VFIMS (TXGBE_VFIMS_MASK D), Flush, ResetHw]
           \<and> mac_perm_addr (hw s7) = init_perm_after_reset E s
           \<and> mac_num_rar_entries (hw s7) = 128"
    using assms(3)
  proof (elim disjE)
    assume "ret_code E (length (trace s) + 4) = 0"
    with assms(2) show ?thesis
      apply (simp add: eth_txgbevf_dev_init_primary_def
          rte_eth_copy_pci_info_def txgbe_init_shared_code_def mbx_init_params_def
          intr_disable_eq mac_reset_hw_def ext_call_def ext_event_def Let_def eval_nat_numeral)
      apply (intro exI conjI)
         apply (rule refl)
        apply (simp_all add: init_perm_after_reset_def eval_nat_numeral split: option.splits)
      done
  next
    assume "ret_code E (length (trace s) + 4) = TXGBE_ERR_INVALID_MAC_ADDR D"
    with assms(2) show ?thesis
      apply (simp add: eth_txgbevf_dev_init_primary_def
          rte_eth_copy_pci_info_def txgbe_init_shared_code_def mbx_init_params_def
          intr_disable_eq mac_reset_hw_def ext_call_def ext_event_def Let_def eval_nat_numeral)
      apply (intro exI conjI)
         apply (rule refl)
        apply (simp_all add: init_perm_after_reset_def eval_nat_numeral split: option.splits)
      done
  qed
  then show ?thesis
    using assms(1) by (simp add: eth_txgbevf_dev_init_def)
qed

lemma init_primary_reaches_resolve:
  assumes "process_type E = RTE_PROC_PRIMARY"
    and "init_shared_rc E s = 0"
    and "init_reset_rc E s = 0 \<or> init_reset_rc E s = TXGBE_ERR_INVALID_MAC_ADDR D"
    and "init_alloc_ok E s"
  shows "\<exists>s9 pre. eth_txgbevf_dev_init D E s = init_resolve_addr D E s9
           \<and> length (trace s9) = init_queues_pos E s + 2
           \<and> trace s9 = trace s @ pre @ [Zmalloc 768]
           \<and> mac_perm_addr (hw s9) = init_perm_after_reset E s
           \<and> mac_addrs (data s9) = Some (replicate 128 (EtherAddr 0 0 0 0 0 0))"
proof -
  from init_primary_reset_done [of E s D] assms(1,2,3) obtain s7 where
    i7: "eth_txgbevf_dev_init D E s = init_after_reset D E s7" and
    t7: "trace s7 = trace s @ [InitSharedCode, MbxInitParams,
                                Wr32 TXGBE_VFIMS (TXGBE_VFIMS_MASK D), Flush, ResetHw]" and
    p7: "mac_perm_addr (hw s7) = init_perm_after_reset E s" and
    n7: "mac_num_rar_entries (hw s7) = 128"
    unfolding init_shared_rc_def init_reset_rc_def by blast
  have l7: "length (trace s7) = length (trace s) + 5"
    by (simp add: t7)
  have a7: "zmalloc_ok E (length (trace s7) + neg_attempts E (length (trace s7)) + 1)"
    using assms(4) by (simp add: init_alloc_ok_def init_queues_pos_def l7)
  from init_after_reset_allocated [OF a7 n7, of D] obtain s9 where
    i9: "init_after_reset D E s7 = init_resolve_addr D E s9" and
    t9: "trace s9 = trace s7 @ map NegotiateApiVersion
                            (take (neg_attempts E (length (trace s7))) sup_ver)
                          @ [GetQueues, Zmalloc 768]" and
    p9: "mac_perm_addr (hw s9) = mac_perm_addr (hw s7)" and
    m9: "mac_addrs (data s9) = Some (replicate 128 (EtherAddr 0 0 0 0 0 0))"
    by blast
  have len: "min (length sup_ver) (neg_attempts E (length (trace s7))) =
               neg_attempts E (length (trace s7))"
    using neg_attempts_le [of E "length (trace s7)"] by (simp add: sup_ver_def)
  have "length (trace s9) = length (trace s7) + neg_attempts E (length (trace s7)) + 2"
    by (simp add: t9 len)
  then have l9: "length (trace s9) = init_queues_pos E s + 2"
    by (simp add: init_queues_pos_def l7)
  have "trace s9 = trace s @ ([InitSharedCode, MbxInitParams,
                                Wr32 TXGBE_VFIMS (TXGBE_VFIMS_MASK D), Flush, ResetHw]
                     @ map NegotiateApiVersion
                            (take (neg_attempts E (length (trace s7))) sup_ver)
                     @ [GetQueues]) @ [Zmalloc 768]"
    by (simp add: t9 t7)
  with i7 i9 l9 p9 p7 m9 show ?thesis
    by metis
qed

text \<open>
  C4. In the primary process init never faults, and its result code follows the error
  classes of the specification: \<open>- EIO\<close> when the shared-code init fails, \<open>- EAGAIN\<close> when
  the reset fails with a code other than \<^verbatim>\<open>TXGBE_ERR_INVALID_MAC_ADDR\<close> (with that code init
  goes on), \<open>- ENOMEM\<close> when the address table cannot be allocated, the installation error
  when the generated address cannot be installed, \<open>- EIO\<close> when the hardware start fails,
  and 0 on success.
\<close>

theorem init_primary_result_code:
  assumes "process_type E = RTE_PROC_PRIMARY"
  shows "\<exists>s'. eth_txgbevf_dev_init D E s = Inr (init_result_code D E s, s')"
proof -
  consider (shared) "init_shared_rc E s \<noteq> 0"
    | (reset) "init_shared_rc E s = 0" "init_reset_rc E s \<noteq> 0"
        "init_reset_rc E s \<noteq> TXGBE_ERR_INVALID_MAC_ADDR D"
    | (alloc) "init_shared_rc E s = 0"
        "init_reset_rc E s = 0 \<or> init_reset_rc E s = TXGBE_ERR_INVALID_MAC_ADDR D"
        "\<not> init_alloc_ok E s"
    | (resolve) "init_shared_rc E s = 0"
        "init_reset_rc E s = 0 \<or> init_reset_rc E s = TXGBE_ERR_INVALID_MAC_ADDR D"
        "init_alloc_ok E s"
    by blast
  then show ?thesis
  proof cases
    case shared
    then show ?thesis
      using init_primary_shared_failed [OF assms, of s D]
      by (simp add: init_result_code_def init_shared_rc_def)
  next
    case reset
    then show ?thesis
      using init_primary_reset_failed [OF assms, of s D]
      by (simp add: init_result_code_def init_shared_rc_def init_reset_rc_def)
  next
    case alloc
    from init_primary_reset_done [of E s D] assms alloc(1,2) obtain s7 where
      i7: "eth_txgbevf_dev_init D E s = init_after_reset D E s7" and
      t7: "trace s7 = trace s @ [InitSharedCode, MbxInitParams,
                                  Wr32 TXGBE_VFIMS (TXGBE_VFIMS_MASK D), Flush, ResetHw]"
      unfolding init_shared_rc_def init_reset_rc_def by blast
    have l7: "length (trace s7) = length (trace s) + 5"
      by (simp add: t7)
    have "\<not> zmalloc_ok E (length (trace s7) + neg_attempts E (length (trace s7)) + 1)"
      using alloc(3) by (simp add: init_alloc_ok_def init_queues_pos_def l7)
    from init_after_reset_alloc_failed [OF this, of D] i7
    have "\<exists>s'. eth_txgbevf_dev_init D E s = Inr (- ENOMEM D, s')"
      by simp
    moreover have "init_result_code D E s = - ENOMEM D"
      using alloc by (auto simp add: init_result_code_def)
    ultimately show ?thesis by simp
  next
    case resolve
    from init_primary_reaches_resolve [OF assms resolve] obtain s9 where
      i9: "eth_txgbevf_dev_init D E s = init_resolve_addr D E s9" and
      l9: "length (trace s9) = init_queues_pos E s + 2" and
      p9: "mac_perm_addr (hw s9) = init_perm_after_reset E s" and
      m9: "mac_addrs (data s9) = Some (replicate 128 (EtherAddr 0 0 0 0 0 0))"
      by blast
    have ne: "replicate 128 (EtherAddr 0 0 0 0 0 0) \<noteq> []"
      by simp
    have pre: "init_result_code D E s =
                 (if rte_is_zero_ether_addr (init_perm_after_reset E s) \<and> init_install_rc E s \<noteq> 0
                  then init_install_rc E s
                  else if init_start_rc E s \<noteq> 0 then - EIO D else 0)"
      using resolve by (auto simp add: init_result_code_def)
    show ?thesis
    proof (cases "rte_is_zero_ether_addr (init_perm_after_reset E s)")
      case False
      then have "\<not> rte_is_zero_ether_addr (mac_perm_addr (hw s9))"
        by (simp add: p9)
      from init_resolve_addr_nonzero [OF m9 ne this, of D E] False show ?thesis
        unfolding i9 pre
        by (simp add: init_start_eq Let_def l9 init_start_rc_def eval_nat_numeral)
    next
      case True
      then have z: "rte_is_zero_ether_addr (mac_perm_addr (hw s9))"
        by (simp add: p9)
      show ?thesis
      proof (cases "init_install_rc E s = 0")
        case False
        then have "ret_code E (length (trace s9) + 1) \<noteq> 0"
          by (simp add: init_install_rc_def l9 eval_nat_numeral)
        from init_resolve_addr_install_failed [OF z this, of D] True False show ?thesis
          unfolding i9 pre
          by (simp add: Let_def l9 init_install_rc_def eval_nat_numeral)
      next
        case ok: True
        then have "ret_code E (length (trace s9) + 1) = 0"
          by (simp add: init_install_rc_def l9 eval_nat_numeral)
        from init_resolve_addr_installed [OF z this m9 ne, of D] True ok show ?thesis
          unfolding i9 pre
          by (simp add: init_start_eq Let_def l9 init_start_rc_def eval_nat_numeral)
      qed
    qed
  qed
qed

theorem init_primary_result_code_witness:
  "(\<exists>s'. eth_txgbevf_dev_init example_defs example_env example_dev = Inr (0, s'))
   \<and> (\<exists>s'. eth_txgbevf_dev_init example_defs
              (example_env\<lparr>ret_code := (\<lambda>k. if k = 0 then 1 else 0)\<rparr>) example_dev = Inr (- 5, s'))
   \<and> (\<exists>s'. eth_txgbevf_dev_init example_defs
              (example_env\<lparr>ret_code := (\<lambda>k. if k = 4 then 1 else 0)\<rparr>) example_dev = Inr (- 11, s'))
   \<and> (\<exists>s'. eth_txgbevf_dev_init example_defs
              (example_env\<lparr>ret_code := (\<lambda>k. if k = 4 then - 266 else 0)\<rparr>) example_dev = Inr (0, s'))
   \<and> (\<exists>s'. eth_txgbevf_dev_init example_defs
              (example_env\<lparr>zmalloc_ok := (\<lambda>k. False)\<rparr>) example_dev = Inr (- 12, s'))
   \<and> (\<exists>s'. eth_txgbevf_dev_init example_defs
              (example_env\<lparr>ret_code := (\<lambda>k. if k = 10 then 1 else 0)\<rparr>) example_dev = Inr (- 5, s'))"
proof -
  have p: "process_type example_env = RTE_PROC_PRIMARY"
    "\<And>f. process_type (example_env\<lparr>ret_code := f\<rparr>) = RTE_PROC_PRIMARY"
    "\<And>f. process_type (example_env\<lparr>zmalloc_ok := f\<rparr>) = RTE_PROC_PRIMARY"
    by (simp_all add: example_env_def)
  note defs = init_result_code_def init_shared_rc_def init_reset_rc_def init_alloc_ok_def
    init_install_rc_def init_start_rc_def init_queues_pos_def init_perm_after_reset_def
    neg_attempts_def rte_is_zero_ether_addr_def example_env_def example_dev_def example_defs_def
  have "init_result_code example_defs example_env example_dev = 0"
    by (simp add: defs)
  moreover have "init_result_code example_defs
      (example_env\<lparr>ret_code := (\<lambda>k. if k = 0 then 1 else 0)\<rparr>) example_dev = - 5"
    by (simp add: defs)
  moreover have "init_result_code example_defs
      (example_env\<lparr>ret_code := (\<lambda>k. if k = 4 then 1 else 0)\<rparr>) example_dev = - 11"
    by (simp add: defs)
  moreover have "init_result_code example_defs
      (example_env\<lparr>ret_code := (\<lambda>k. if k = 4 then - 266 else 0)\<rparr>) example_dev = 0"
    by (simp add: defs)
  moreover have "init_result_code example_defs
      (example_env\<lparr>zmalloc_ok := (\<lambda>k. False)\<rparr>) example_dev = - 12"
    by (simp add: defs)
  moreover have "init_result_code example_defs
      (example_env\<lparr>ret_code := (\<lambda>k. if k = 10 then 1 else 0)\<rparr>) example_dev = - 5"
    by (simp add: defs)
  ultimately show ?thesis
    using init_primary_result_code [OF p(1), of example_defs example_dev]
      init_primary_result_code [OF p(2), of example_defs _ example_dev]
      init_primary_result_code [OF p(3), of example_defs _ example_dev]
    by metis
qed



lemma example_random_mac_addr:
  "random_mac_addr example_defs True 0x1122334455667788 = EtherAddr 0x02 0x09 0xC0 0x88 0x77 0x66"
  by (simp add: random_mac_addr_def u64_mem_byte_def example_defs_def)


text \<open>
  C6. When the installation of the generated address fails, init returns the installation
  error; the last calls of the run are the allocation, the random number, the failed
  installation and the release of the table, and the table pointer is \<^verbatim>\<open>NULL\<close> afterwards.
\<close>

theorem init_install_failure_frees_table:
  assumes "process_type E = RTE_PROC_PRIMARY"
    and "init_shared_rc E s = 0"
    and "init_reset_rc E s = 0 \<or> init_reset_rc E s = TXGBE_ERR_INVALID_MAC_ADDR D"
    and "init_alloc_ok E s"
    and "rte_is_zero_ether_addr (init_perm_after_reset E s)"
    and "init_install_rc E s \<noteq> 0"
  shows "\<exists>s' a pre.
           eth_txgbevf_dev_init D E s = Inr (init_install_rc E s, s')
           \<and> mac_addrs (data s') = None
           \<and> a = random_mac_addr D (little_endian E) (init_random E s)
           \<and> trace s' = trace s @ pre @ [Zmalloc 768, Rand, SetRarVf 1 a 0 1, Free]"
proof -
  from init_primary_reaches_resolve [OF assms(1-4)] obtain s9 pre where
    i9: "eth_txgbevf_dev_init D E s = init_resolve_addr D E s9" and
    l9: "length (trace s9) = init_queues_pos E s + 2" and
    t9: "trace s9 = trace s @ pre @ [Zmalloc 768]"and
    p9: "mac_perm_addr (hw s9) = init_perm_after_reset E s"
    by blast
  have z: "rte_is_zero_ether_addr (mac_perm_addr (hw s9))"
    using assms(5) by (simp add: p9)
  have rc: "ret_code E (length (trace s9) + 1) = init_install_rc E s"
    by (simp add: init_install_rc_def l9 eval_nat_numeral)
  have bad: "ret_code E (length (trace s9) + 1) \<noteq> 0"
    using assms(6) unfolding rc .
  have r: "rte_rand E (length (trace s9)) = init_random E s"
    by (simp add: init_random_def l9)
  define a where "a = random_mac_addr D (little_endian E) (init_random E s)"
  define x where "x = s9\<lparr>hw := (hw s9)\<lparr>mac_perm_addr := a\<rparr>,
                      data := (data s9)\<lparr>mac_addrs := None\<rparr>,
                      trace := trace s9 @ [Rand, SetRarVf 1 a 0 1, Free]\<rparr>"
  have run: "eth_txgbevf_dev_init D E s = Inr (init_install_rc E s, x)"
    unfolding i9 init_resolve_addr_install_failed [OF z bad] Let_def rc r x_def a_def ..
  have m: "mac_addrs (data x) = None"
    by (simp add: x_def)
  have tx: "trace x = trace s @ pre @ [Zmalloc 768, Rand, SetRarVf 1 a 0 1, Free]"
    by (simp add: x_def t9)
  have "eth_txgbevf_dev_init D E s = Inr (init_install_rc E s, x)
           \<and> mac_addrs (data x) = None
           \<and> a = random_mac_addr D (little_endian E) (init_random E s)
           \<and> trace x = trace s @ pre @ [Zmalloc 768, Rand, SetRarVf 1 a 0 1, Free]"
    using run m a_def tx by (intro conjI)
  then show ?thesis
    by (intro exI)
qed


theorem init_install_failure_frees_table_witness:
  "\<exists>s' pre. eth_txgbevf_dev_init example_defs
               (example_env\<lparr>ret_code := (\<lambda>k. if k = 9 then - 100 else 0)\<rparr>) example_dev =
               Inr (- 100, s')
      \<and> mac_addrs (data s') = None
      \<and> trace s' = pre @ [Zmalloc 768, Rand,
                           SetRarVf 1 (EtherAddr 0x02 0x09 0xC0 0x88 0x77 0x66) 0 1, Free]"
proof -
  let ?E = "example_env\<lparr>ret_code := (\<lambda>k. if k = 9 then - 100 else 0)\<rparr>"
  note defs = init_shared_rc_def init_reset_rc_def init_alloc_ok_def
    init_install_rc_def init_queues_pos_def init_perm_after_reset_def init_random_def
    neg_attempts_def rte_is_zero_ether_addr_def example_env_def example_dev_def
  have h: "process_type ?E = RTE_PROC_PRIMARY"
    "init_shared_rc ?E example_dev = 0"
    "init_reset_rc ?E example_dev = 0
     \<or> init_reset_rc ?E example_dev = TXGBE_ERR_INVALID_MAC_ADDR example_defs"
    "init_alloc_ok ?E example_dev"
    "rte_is_zero_ether_addr (init_perm_after_reset ?E example_dev)"
    "init_install_rc ?E example_dev \<noteq> 0"
    by (simp_all add: defs)
  have rc: "init_install_rc ?E example_dev = - 100"
    by (simp add: defs)
  have a: "random_mac_addr example_defs (little_endian ?E) (init_random ?E example_dev) =
             EtherAddr 0x02 0x09 0xC0 0x88 0x77 0x66"
    using example_random_mac_addr by (simp add: defs)
  have t: "trace example_dev = []"
    by (simp add: example_dev_def)
  from init_install_failure_frees_table [OF h] obtain s' pre where
    "eth_txgbevf_dev_init example_defs ?E example_dev = Inr (- 100, s')"
    "mac_addrs (data s') = None"
    "trace s' = pre @ [Zmalloc 768, Rand,
                       SetRarVf 1 (EtherAddr 0x02 0x09 0xC0 0x88 0x77 0x66) 0 1, Free]"
    unfolding a rc t by auto
  then show ?thesis by blast
qed

end
